theory Spec2Isabelle
  imports Complex_Main "HOL-Library.AList"
begin

section \<open>WhisperWire: channel registry, client registry, signaling handlers\<close>

text \<open>
  The server keeps three process-wide objects: a \<open>ChannelManager\<close>, a \<open>ClientManager\<close>
  (both in \<^verbatim>\<open>server/src/models\<close>) and the \<open>MediasoupManager\<close>
  (\<^verbatim>\<open>server/src/media/mediasoupManager.js\<close>). The Socket.IO handlers of
  \<^verbatim>\<open>server/src/socket/socketHandler.js\<close> read and mutate them. Every method is
  modelled as a function from the object's state to its return value and the new state.

  Conventions of the embedding.
  \<^item> A JavaScript \<open>Map\<close> whose iteration order the code relies on (the registries of
    channels, clients and pending clients) is an association list in insertion order:
    \<open>Map.set\<close> is \<open>AList.update\<close> (replace in place, or append), \<open>Map.delete\<close> is
    \<open>AList.delete\<close>, \<open>Map.get\<close> is \<open>map_of\<close>. A \<open>Map\<close> or plain object that is
    only looked up by key is a partial function.
  \<^item> A value that the code only tests for truthiness is a \<open>bool\<close>; an entry of
    \<open>speakTo\<close>/\<open>listenTo\<close> records whether the stored value is the boolean \<open>true\<close>,
    which is all that \<open>=== true\<close> observes. A property that may be \<open>undefined\<close> is an
    \<open>option\<close>.
  \<^item> Identifiers drawn by \<open>uuidv4()\<close> or by the mediasoup library are arguments.
  \<^item> Time stamps (\<open>createdAt\<close>, \<open>authorizedAt\<close>) and log lines are left out.
  \<^item> A volume is a JavaScript number: a real (\<open>Math.min\<close> and \<open>Math.max\<close> return
    one of their arguments, so no rounding happens on finite doubles), an infinity, or
    \<open>NaN\<close>. The \<open>volume\<close> property of a payload is represented by the number
    \<open>Math.min\<close> converts it to, which is \<open>NaN\<close> when the property is missing or not
    numeric.
  \<^item> The payload of a request is an object; a property of it may be missing.
  \<^item> What the libraries decide (mediasoup, Socket.IO) is an argument of the handlers.
\<close>

subsection \<open>JavaScript values at the authentication boundary\<close>

datatype js_value =
    JUndefined
  | JNull
  | JBoolean bool
  | JNumber real
  | JString string
  | JObject

fun truthy :: "js_value \<Rightarrow> bool" where
  "truthy JUndefined = False"
| "truthy JNull = False"
| "truthy (JBoolean b) = b"
| "truthy (JNumber x) = (x \<noteq> 0)"
| "truthy (JString s) = (s \<noteq> [])"
| "truthy JObject = True"

text \<open>
  Numbers as \<open>Math.min\<close> and \<open>Math.max\<close> see them: either argument \<open>NaN\<close>
  gives \<open>NaN\<close>; otherwise the smaller (larger) one.
\<close>

datatype js_number = Number real | PosInfinity | NegInfinity | NaN

fun Math_min :: "js_number \<Rightarrow> js_number \<Rightarrow> js_number" where
  "Math_min NaN y = NaN"
| "Math_min x NaN = NaN"
| "Math_min NegInfinity y = NegInfinity"
| "Math_min x NegInfinity = NegInfinity"
| "Math_min PosInfinity y = y"
| "Math_min x PosInfinity = x"
| "Math_min (Number a) (Number b) = Number (min a b)"

fun Math_max :: "js_number \<Rightarrow> js_number \<Rightarrow> js_number" where
  "Math_max NaN y = NaN"
| "Math_max x NaN = NaN"
| "Math_max PosInfinity y = PosInfinity"
| "Math_max x PosInfinity = PosInfinity"
| "Math_max NegInfinity y = y"
| "Math_max x NegInfinity = x"
| "Math_max (Number a) (Number b) = Number (max a b)"

text \<open>\<open>process.env\<close>: a variable is a string, or \<open>undefined\<close> when it is not set.\<close>

record process_env =
  SERVER_PASSWORD :: "string option"

text \<open>Truthiness of a property that is a string or \<open>undefined\<close>.\<close>

fun string_truthy :: "string option \<Rightarrow> bool" where
  "string_truthy None = False"
| "string_truthy (Some s) = (s \<noteq> [])"

text \<open>\<open>v === process.env.X\<close>: strict equality, no coercion.\<close>

fun strict_equal_env :: "js_value \<Rightarrow> string option \<Rightarrow> bool" where
  "strict_equal_env (JString s) (Some t) = (s = t)"
| "strict_equal_env JUndefined None = True"
| "strict_equal_env _ _ = False"

text \<open>\<^verbatim>\<open>utils/auth.js\<close>, \<open>authenticateClient\<close>.\<close>

definition authenticateClient :: "process_env \<Rightarrow> js_value \<Rightarrow> bool" where
  "authenticateClient env serverPassword =
     (if \<not> string_truthy (SERVER_PASSWORD env) then False
      else strict_equal_env serverPassword (SERVER_PASSWORD env))"

subsection \<open>Errors\<close>

datatype error =
    InvalidServerPassword
  | Unauthorized
  | ClientNotFound
  | TransportNotFound string
  | ProducerNotFound string
  | CannotConsume
  | TypeError
  | WorkerError

subsection \<open>ChannelManager\<close>

record channel =
  channel_id :: string
  channel_name :: string
  channel_description :: string
  channel_clients :: "string set"
  channel_producers :: "string set"

record channel_info =
  info_id :: string
  info_name :: string
  info_description :: string
  clientCount :: nat

record channel_manager =
  channels :: "(string \<times> channel) list"

definition getChannelInfo :: "channel_manager \<Rightarrow> string \<Rightarrow> channel_info option" where
  "getChannelInfo chm channelId =
     (case map_of (channels chm) channelId of
        None \<Rightarrow> None
      | Some ch \<Rightarrow>
          Some \<lparr>info_id = channel_id ch, info_name = channel_name ch,
                info_description = channel_description ch,
                clientCount = card (channel_clients ch)\<rparr>)"

text \<open>\<open>createChannel(name, description)\<close>; \<open>uuid\<close> is the value \<open>uuidv4()\<close> returns.\<close>

definition createChannel ::
  "channel_manager \<Rightarrow> string \<Rightarrow> string \<Rightarrow> string \<Rightarrow> channel_info option \<times> channel_manager"
where
  "createChannel chm uuid name description =
     (let ch = \<lparr>channel_id = uuid, channel_name = name, channel_description = description,
                 channel_clients = {}, channel_producers = {}\<rparr>;
          chm' = chm\<lparr>channels := AList.update uuid ch (channels chm)\<rparr>
      in (getChannelInfo chm' uuid, chm'))"

text \<open>The constructor: an empty map, then the default channel.\<close>

definition new_ChannelManager :: "string \<Rightarrow> channel_manager" where
  "new_ChannelManager uuid =
     snd (createChannel \<lparr>channels = []\<rparr> uuid ''System''
            ''System-wide announcements and notifications'')"

text \<open>
  \<open>updateChannel(channelId, updates)\<close>. \<open>if (updates.name)\<close> is a truthiness test: a
  missing or empty name leaves the field alone.
\<close>

record channel_updates =
  updates_name :: "string option"
  updates_description :: "string option"

definition updateChannel ::
  "channel_manager \<Rightarrow> string \<Rightarrow> channel_updates \<Rightarrow> channel_info option \<times> channel_manager"
where
  "updateChannel chm channelId updates =
     (case map_of (channels chm) channelId of
        None \<Rightarrow> (None, chm)
      | Some ch \<Rightarrow>
          (let ch1 = (case updates_name updates of
                        None \<Rightarrow> ch
                      | Some n \<Rightarrow> if n \<noteq> [] then ch\<lparr>channel_name := n\<rparr> else ch);
               ch2 = (case updates_description updates of
                        None \<Rightarrow> ch1
                      | Some d \<Rightarrow> if d \<noteq> [] then ch1\<lparr>channel_description := d\<rparr> else ch1);
               chm' = chm\<lparr>channels := AList.update channelId ch2 (channels chm)\<rparr>
           in (getChannelInfo chm' channelId, chm')))"

text \<open>
  \<open>deleteChannel(channelId)\<close>: refused when the channel stored under the id is
  \<^emph>\<open>named\<close> \<open>System\<close>; otherwise \<open>Map.delete\<close>, whose result says whether the key
  was there.
\<close>

definition deleteChannel :: "channel_manager \<Rightarrow> string \<Rightarrow> bool \<times> channel_manager" where
  "deleteChannel chm channelId =
     (if (case map_of (channels chm) channelId of
            None \<Rightarrow> False
          | Some ch \<Rightarrow> channel_name ch = ''System'')
      then (False, chm)
      else (map_of (channels chm) channelId \<noteq> None,
            chm\<lparr>channels := AList.delete channelId (channels chm)\<rparr>))"

definition addProducerToChannel ::
  "channel_manager \<Rightarrow> string \<Rightarrow> string \<Rightarrow> bool \<times> channel_manager"
where
  "addProducerToChannel chm channelId producerId =
     (case map_of (channels chm) channelId of
        None \<Rightarrow> (False, chm)
      | Some ch \<Rightarrow>
          (True,
           chm\<lparr>channels :=
                 AList.update channelId
                   (ch\<lparr>channel_producers := insert producerId (channel_producers ch)\<rparr>)
                   (channels chm)\<rparr>))"

subsection \<open>ClientManager\<close>

record permission_matrix =
  speakToAll :: bool
  listenToAll :: bool
  speakTo :: "(string \<rightharpoonup> bool) option"
  listenTo :: "(string \<rightharpoonup> bool) option"

record channel_settings =
  muted :: bool
  volume :: js_number

record client =
  client_id :: string
  client_name :: string
  socketId :: "string option"
  isAdmin :: bool
  authorized :: bool
  client_channels :: "string list"
  permissions :: permission_matrix
  channelSettings :: "string \<rightharpoonup> channel_settings"

record pending_client =
  pending_id :: string
  pending_name :: string
  pending_socketId :: "string option"

record client_manager =
  clients :: "(string \<times> client) list"
  pendingClients :: "(string \<times> pending_client) list"

text \<open>
  The permissions object an administrator sends (to \<open>authorizeClient\<close> and to
  \<open>updateClientPermissions\<close>): every property may be absent.
\<close>

record permissions_arg =
  arg_isAdmin :: "bool option"
  arg_speakToAll :: "bool option"
  arg_listenToAll :: "bool option"
  arg_speakTo :: "(string \<rightharpoonup> bool) option"
  arg_listenTo :: "(string \<rightharpoonup> bool) option"

text \<open>\<open>x || false\<close> and \<open>x || {}\<close>.\<close>

fun or_false :: "bool option \<Rightarrow> bool" where
  "or_false None = False"
| "or_false (Some b) = b"

fun or_empty :: "(string \<rightharpoonup> bool) option \<Rightarrow> (string \<rightharpoonup> bool)" where
  "or_empty None = Map.empty"
| "or_empty (Some m) = m"

text \<open>
  \<open>getClientInfo\<close> copies the fields of the stored client (all but the socket id) into a
  fresh object; the model hands out the stored record.
\<close>

definition getClientInfo :: "client_manager \<Rightarrow> string \<Rightarrow> client option" where
  "getClientInfo cm clientId = map_of (clients cm) clientId"

text \<open>
  \<open>createAdminClient\<close>: the permissions object has no \<open>speakTo\<close> and no \<open>listenTo\<close>
  property.
\<close>

definition createAdminClient ::
  "client_manager \<Rightarrow> string \<Rightarrow> string \<Rightarrow> client option \<times> client_manager"
where
  "createAdminClient cm uuid name =
     (let adminClient =
            \<lparr>client_id = uuid, client_name = name, socketId = None, isAdmin = True,
             authorized = True, client_channels = [],
             permissions = \<lparr>speakToAll = True, listenToAll = True,
                            speakTo = None, listenTo = None\<rparr>,
             channelSettings = Map.empty\<rparr>;
          cm' = cm\<lparr>clients := AList.update uuid adminClient (clients cm)\<rparr>
      in (getClientInfo cm' uuid, cm'))"

text \<open>
  \<open>addPendingClient\<close> stores the pending record and returns a fresh object
  \<open>{id, name, pending: true}\<close>.
\<close>

record pending_info =
  pending_info_id :: string
  pending_info_name :: string
  pending_info_pending :: bool

definition addPendingClient ::
  "client_manager \<Rightarrow> string \<Rightarrow> string option \<Rightarrow> string \<Rightarrow> pending_info \<times> client_manager"
where
  "addPendingClient cm uuid sock name =
     (let pendingClient = \<lparr>pending_id = uuid, pending_name = name, pending_socketId = sock\<rparr>
      in (\<lparr>pending_info_id = uuid, pending_info_name = name, pending_info_pending = True\<rparr>,
          cm\<lparr>pendingClients := AList.update uuid pendingClient (pendingClients cm)\<rparr>))"

text \<open>The default settings of a channel a client joins.\<close>

definition default_settings :: channel_settings where
  "default_settings = \<lparr>muted = False, volume = Number 1\<rparr>"

text \<open>\<open>channels.forEach(channelId => client.channelSettings.set(channelId, {...}))\<close>\<close>

fun init_settings ::
  "string list \<Rightarrow> (string \<rightharpoonup> channel_settings) \<Rightarrow> (string \<rightharpoonup> channel_settings)"
where
  "init_settings [] m = m"
| "init_settings (channelId # rest) m = init_settings rest (m(channelId \<mapsto> default_settings))"

text \<open>
  \<open>authorizeClient(clientId, channels, permissions)\<close>. \<open>channels\<close> is \<open>None\<close> when
  the caller passes \<open>undefined\<close> or \<open>null\<close>; reading a property of an \<open>undefined\<close>
  \<open>permissions\<close> throws before anything is stored.
\<close>

definition authorizeClient ::
  "client_manager \<Rightarrow> string \<Rightarrow> string list option \<Rightarrow> permissions_arg option
     \<Rightarrow> error + (client option \<times> client_manager)"
where
  "authorizeClient cm clientId chans perms =
     (case map_of (pendingClients cm) clientId of
        None \<Rightarrow> Inr (None, cm)
      | Some pendingClient \<Rightarrow>
          (case perms of
             None \<Rightarrow> Inl TypeError
           | Some p \<Rightarrow>
               (let cl = \<lparr>client_id = clientId,
                          client_name = pending_name pendingClient,
                          socketId = pending_socketId pendingClient,
                          isAdmin = or_false (arg_isAdmin p),
                          authorized = True,
                          client_channels = (case chans of None \<Rightarrow> [] | Some cs \<Rightarrow> cs),
                          permissions =
                            \<lparr>speakToAll = or_false (arg_speakToAll p),
                             listenToAll = or_false (arg_listenToAll p),
                             speakTo = Some (or_empty (arg_speakTo p)),
                             listenTo = Some (or_empty (arg_listenTo p))\<rparr>,
                          channelSettings =
                            (case chans of
                               None \<Rightarrow> Map.empty
                             | Some cs \<Rightarrow> init_settings cs Map.empty)\<rparr>;
                    cm' = cm\<lparr>clients := AList.update clientId cl (clients cm),
                             pendingClients := AList.delete clientId (pendingClients cm)\<rparr>
                in Inr (getClientInfo cm' clientId, cm'))))"

definition rejectClient :: "client_manager \<Rightarrow> string \<Rightarrow> bool \<times> client_manager" where
  "rejectClient cm clientId =
     (map_of (pendingClients cm) clientId \<noteq> None,
      cm\<lparr>pendingClients := AList.delete clientId (pendingClients cm)\<rparr>)"

text \<open>
  \<open>getClientBySocketId\<close>: the first entry, in insertion order, whose socket id is the
  given one.
\<close>

fun first_with_socket :: "(string \<times> client) list \<Rightarrow> string \<Rightarrow> string option" where
  "first_with_socket [] sock = None"
| "first_with_socket ((clientId, cl) # rest) sock =
     (if socketId cl = Some sock then Some clientId else first_with_socket rest sock)"

definition getClientBySocketId :: "client_manager \<Rightarrow> string \<Rightarrow> client option" where
  "getClientBySocketId cm sock =
     (case first_with_socket (clients cm) sock of
        None \<Rightarrow> None
      | Some clientId \<Rightarrow> getClientInfo cm clientId)"

text \<open>\<open>isAdmin(socketId)\<close>: \<open>client && client.isAdmin\<close>, used as a condition.\<close>

definition ClientManager_isAdmin :: "client_manager \<Rightarrow> string \<Rightarrow> bool" where
  "ClientManager_isAdmin cm sock =
     (case getClientBySocketId cm sock of None \<Rightarrow> False | Some cl \<Rightarrow> isAdmin cl)"

text \<open>\<open>addClientToChannel(clientId, channelId)\<close> of the client registry.\<close>

definition addClientToChannel ::
  "client_manager \<Rightarrow> string \<Rightarrow> string \<Rightarrow> bool \<times> client_manager"
where
  "addClientToChannel cm clientId channelId =
     (case map_of (clients cm) clientId of
        None \<Rightarrow> (False, cm)
      | Some cl \<Rightarrow>
          (if channelId \<notin> set (client_channels cl)
           then
             (let cl1 = cl\<lparr>client_channels := client_channels cl @ [channelId]\<rparr>;
                  cl2 = (if channelSettings cl1 channelId = None
                         then cl1\<lparr>channelSettings :=
                                    (channelSettings cl1)(channelId \<mapsto> default_settings)\<rparr>
                         else cl1)
              in (True, cm\<lparr>clients := AList.update clientId cl2 (clients cm)\<rparr>))
           else (False, cm)))"

text \<open>
  \<open>removeClientFromChannel\<close>: \<open>indexOf\<close> and \<open>splice(index, 1)\<close> take out the first
  occurrence; the settings entry of the channel is deleted.
\<close>

definition removeClientFromChannel ::
  "client_manager \<Rightarrow> string \<Rightarrow> string \<Rightarrow> bool \<times> client_manager"
where
  "removeClientFromChannel cm clientId channelId =
     (case map_of (clients cm) clientId of
        None \<Rightarrow> (False, cm)
      | Some cl \<Rightarrow>
          (if channelId \<in> set (client_channels cl)
           then
             (let cl' = cl\<lparr>client_channels := remove1 channelId (client_channels cl),
                           channelSettings := (channelSettings cl)(channelId := None)\<rparr>
              in (True, cm\<lparr>clients := AList.update clientId cl' (clients cm)\<rparr>))
           else (False, cm)))"

text \<open>
  \<open>canSpeak\<close> and \<open>canListen\<close>. Indexing \<open>permissions.speakTo\<close> throws a
  \<open>TypeError\<close> when the property is \<open>undefined\<close>, which is how \<open>createAdminClient\<close>
  leaves it.
\<close>

definition canSpeak :: "client_manager \<Rightarrow> string \<Rightarrow> string \<Rightarrow> error + bool" where
  "canSpeak cm clientId channelId =
     (case map_of (clients cm) clientId of
        None \<Rightarrow> Inr False
      | Some cl \<Rightarrow>
          (if channelId \<notin> set (client_channels cl) then Inr False
           else if speakToAll (permissions cl) then Inr True
           else (case speakTo (permissions cl) of
                   None \<Rightarrow> Inl TypeError
                 | Some m \<Rightarrow> Inr (m channelId = Some True))))"

definition canListen :: "client_manager \<Rightarrow> string \<Rightarrow> string \<Rightarrow> error + bool" where
  "canListen cm clientId channelId =
     (case map_of (clients cm) clientId of
        None \<Rightarrow> Inr False
      | Some cl \<Rightarrow>
          (if channelId \<notin> set (client_channels cl) then Inr False
           else if listenToAll (permissions cl) then Inr True
           else (case listenTo (permissions cl) of
                   None \<Rightarrow> Inl TypeError
                 | Some m \<Rightarrow> Inr (m channelId = Some True))))"

text \<open>
  \<open>setChannelMuteStatus\<close> and \<open>setChannelVolume\<close>: both are guarded by the client
  being registered and having a settings entry for the channel.
\<close>

definition setChannelMuteStatus ::
  "client_manager \<Rightarrow> string \<Rightarrow> string \<Rightarrow> bool \<Rightarrow> bool \<times> client_manager"
where
  "setChannelMuteStatus cm clientId channelId m =
     (case map_of (clients cm) clientId of
        None \<Rightarrow> (False, cm)
      | Some cl \<Rightarrow>
          (case channelSettings cl channelId of
             None \<Rightarrow> (False, cm)
           | Some settings \<Rightarrow>
               (True,
                cm\<lparr>clients :=
                     AList.update clientId
                       (cl\<lparr>channelSettings :=
                             (channelSettings cl)(channelId \<mapsto> settings\<lparr>muted := m\<rparr>)\<rparr>)
                       (clients cm)\<rparr>)))"

definition setChannelVolume ::
  "client_manager \<Rightarrow> string \<Rightarrow> string \<Rightarrow> js_number \<Rightarrow> bool \<times> client_manager"
where
  "setChannelVolume cm clientId channelId v =
     (case map_of (clients cm) clientId of
        None \<Rightarrow> (False, cm)
      | Some cl \<Rightarrow>
          (case channelSettings cl channelId of
             None \<Rightarrow> (False, cm)
           | Some settings \<Rightarrow>
               (let normalizedVolume = Math_max (Number 0) (Math_min (Number 1) v)
                in (True,
                    cm\<lparr>clients :=
                         AList.update clientId
                           (cl\<lparr>channelSettings :=
                                 (channelSettings cl)
                                   (channelId \<mapsto> settings\<lparr>volume := normalizedVolume\<rparr>)\<rparr>)
                           (clients cm)\<rparr>))))"

text \<open>
  \<open>updateClientPermissions(clientId, permissions)\<close>. \<open>{...old, ...patch}\<close> is
  \<open>old ++ patch\<close>; spreading an \<open>undefined\<close> \<open>old\<close> contributes nothing.
\<close>

definition updateClientPermissions ::
  "client_manager \<Rightarrow> string \<Rightarrow> permissions_arg \<Rightarrow> bool \<times> client_manager"
where
  "updateClientPermissions cm clientId p =
     (case map_of (clients cm) clientId of
        None \<Rightarrow> (False, cm)
      | Some cl \<Rightarrow>
          (let pm = permissions cl;
               pm1 = (case arg_speakToAll p of
                        None \<Rightarrow> pm | Some b \<Rightarrow> pm\<lparr>speakToAll := b\<rparr>);
               pm2 = (case arg_listenToAll p of
                        None \<Rightarrow> pm1 | Some b \<Rightarrow> pm1\<lparr>listenToAll := b\<rparr>);
               pm3 = (case arg_speakTo p of
                        None \<Rightarrow> pm2
                      | Some m \<Rightarrow> pm2\<lparr>speakTo := Some (or_empty (speakTo pm2) ++ m)\<rparr>);
               pm4 = (case arg_listenTo p of
                        None \<Rightarrow> pm3
                      | Some m \<Rightarrow> pm3\<lparr>listenTo := Some (or_empty (listenTo pm3) ++ m)\<rparr>)
           in (True,
               cm\<lparr>clients := AList.update clientId (cl\<lparr>permissions := pm4\<rparr>) (clients cm)\<rparr>)))"

subsection \<open>MediasoupManager\<close>

text \<open>
  The manager keeps three maps from identifiers to the objects of the mediasoup library,
  and the router (absent before \<open>initialize\<close> has run). Of a library object the model
  keeps what the manager passes in or reads back. What the library does in one call is
  an argument, \<open>library_reply\<close>: whether the awaited call resolves, the identifier of the
  object it creates, and the answer of \<open>router.canConsume\<close>. The record also carries
  the one thing the handlers leave to the Socket.IO library: whether the object that
  \<open>socket.to(room)\<close> returns has a \<open>join\<close> method (it has one up to version 3, where
  it is the socket itself, and none from version 4 on, where calling it throws).
\<close>

record transport =
  transport_id :: string

record producer =
  producer_id :: string
  producer_kind :: string
  producer_transportId :: string

record consumer =
  consumer_id :: string
  consumer_producerId :: string
  consumer_transportId :: string

record mediasoup_manager =
  router :: "string option"
  transports :: "string \<rightharpoonup> transport"
  producers :: "string \<rightharpoonup> producer"
  consumers :: "string \<rightharpoonup> consumer"

record library_reply =
  worker_accepts :: bool
  worker_id :: string
  worker_canConsume :: bool
  broadcast_join :: bool

definition getRtpCapabilities :: "mediasoup_manager \<Rightarrow> error + string" where
  "getRtpCapabilities ms =
     (case router ms of None \<Rightarrow> Inl TypeError | Some rtpCapabilities \<Rightarrow> Inr rtpCapabilities)"

definition createWebRtcTransport ::
  "mediasoup_manager \<Rightarrow> library_reply \<Rightarrow> error + (transport \<times> mediasoup_manager)"
where
  "createWebRtcTransport ms w =
     (case router ms of
        None \<Rightarrow> Inl TypeError
      | Some _ \<Rightarrow>
          (if worker_accepts w
           then (let t = \<lparr>transport_id = worker_id w\<rparr>
                 in Inr (t, ms\<lparr>transports := (transports ms)(transport_id t \<mapsto> t)\<rparr>))
           else Inl WorkerError))"

definition connectWebRtcTransport ::
  "mediasoup_manager \<Rightarrow> library_reply \<Rightarrow> string \<Rightarrow> error + bool"
where
  "connectWebRtcTransport ms w transportId =
     (case transports ms transportId of
        None \<Rightarrow> Inl (TransportNotFound transportId)
      | Some t \<Rightarrow> (if worker_accepts w then Inr True else Inl WorkerError))"

definition produce ::
  "mediasoup_manager \<Rightarrow> library_reply \<Rightarrow> string \<Rightarrow> string
     \<Rightarrow> error + (producer \<times> mediasoup_manager)"
where
  "produce ms w transportId kind =
     (case transports ms transportId of
        None \<Rightarrow> Inl (TransportNotFound transportId)
      | Some t \<Rightarrow>
          (if worker_accepts w
           then (let p = \<lparr>producer_id = worker_id w, producer_kind = kind,
                          producer_transportId = transportId\<rparr>
                 in Inr (p, ms\<lparr>producers := (producers ms)(producer_id p \<mapsto> p)\<rparr>))
           else Inl WorkerError))"

definition consume ::
  "mediasoup_manager \<Rightarrow> library_reply \<Rightarrow> string \<Rightarrow> string
     \<Rightarrow> error + (consumer \<times> mediasoup_manager)"
where
  "consume ms w transportId producerId =
     (case transports ms transportId of
        None \<Rightarrow> Inl (TransportNotFound transportId)
      | Some t \<Rightarrow>
          (case producers ms producerId of
             None \<Rightarrow> Inl (ProducerNotFound producerId)
           | Some p \<Rightarrow>
               (case router ms of
                  None \<Rightarrow> Inl TypeError
                | Some _ \<Rightarrow>
                    (if \<not> worker_canConsume w then Inl CannotConsume
                     else if worker_accepts w
                     then (let c = \<lparr>consumer_id = worker_id w,
                                    consumer_producerId = producerId,
                                    consumer_transportId = transportId\<rparr>
                           in Inr (c, ms\<lparr>consumers := (consumers ms)(consumer_id c \<mapsto> c)\<rparr>))
                     else Inl WorkerError))))"

subsection \<open>The Socket.IO handlers\<close>

text \<open>
  One connection is one socket id. A handler answers through its callback (\<open>reply\<close>),
  may change the three managers, and may emit events to other sockets. For each request
  \<open>socketHandler\<close> gives the reply and the new state, and \<open>socketEmits\<close> the events
  emitted, in order. \<open>startSpeaking\<close> and \<open>stopSpeaking\<close> have no callback and leave
  the managers alone: all they do is emit. Room membership is kept by Socket.IO and is
  not part of the state. An exception inside a handler is caught and answered with
  \<open>success: false\<close>; what was stored or emitted before it was thrown stays.
\<close>

record server =
  channelManager :: channel_manager
  clientManager :: client_manager
  mediasoupManager :: mediasoup_manager

datatype reply =
    Failure error
  | Success
  | AuthenticateOk pending_info
  | ChannelCreated "channel_info option"
  | RtpCapabilities string
  | TransportParams string
  | Produced string
  | Consumed string string
  | NoReply

text \<open>
  Events, with the room they go to: \<open>clientPending\<close> to the room \<open>admin\<close> (it carries
  the socket id and the name); \<open>authorized\<close> (channels and permissions as sent) and
  \<open>rejected\<close> to the room named by the client id; \<open>channelCreated\<close> to every other
  socket; \<open>clientSpeaking\<close> and \<open>clientStoppedSpeaking\<close> to the room of the channel
  (channel id, then the client's id and name).
\<close>

datatype event =
    ClientPending string string
  | ClientAuthorized string "string list" "permissions_arg option"
  | ClientRejected string
  | ChannelCreatedBroadcast "channel_info option"
  | ClientSpeaking string string string
  | ClientStoppedSpeaking string string string

datatype request =
    Authenticate string js_value
  | AuthorizeClient string bool "string list option" "permissions_arg option"
  | CreateChannel string string
  | StartSpeaking string
  | StopSpeaking string
  | ToggleChannelMute string bool
  | AdjustChannelVolume string js_number
  | GetRouterRtpCapabilities
  | CreateWebRtcTransport
  | ConnectWebRtcTransport string
  | Produce string string
  | Consume string string

definition on_authenticate ::
  "process_env \<Rightarrow> string \<Rightarrow> string \<Rightarrow> string \<Rightarrow> js_value \<Rightarrow> server \<Rightarrow> reply \<times> server"
where
  "on_authenticate env uuid sock clientName serverPassword s =
     (if \<not> truthy serverPassword \<or> \<not> strict_equal_env serverPassword (SERVER_PASSWORD env)
      then (Failure InvalidServerPassword, s)
      else (let (cl, cm') = addPendingClient (clientManager s) uuid (Some sock) clientName
            in (AuthenticateOk cl, s\<lparr>clientManager := cm'\<rparr>)))"

definition authenticate_emits ::
  "process_env \<Rightarrow> string \<Rightarrow> string \<Rightarrow> js_value \<Rightarrow> event list"
where
  "authenticate_emits env sock clientName serverPassword =
     (if \<not> truthy serverPassword \<or> \<not> strict_equal_env serverPassword (SERVER_PASSWORD env)
      then []
      else [ClientPending sock clientName])"

text \<open>
  \<open>authorizeClient\<close>: after the registry call the handler runs
  \<open>channels.forEach(channelId => clientSocket.join(channelId))\<close> on
  \<open>clientSocket = socket.to(clientId)\<close>. That throws when \<open>channels\<close> is
  \<open>undefined\<close>, and at the first channel when the object has no \<open>join\<close>; the client
  is stored by then. Only after the loop is \<open>authorized\<close> emitted.
\<close>

definition on_authorizeClient ::
  "library_reply \<Rightarrow> string \<Rightarrow> string \<Rightarrow> bool \<Rightarrow> string list option
     \<Rightarrow> permissions_arg option \<Rightarrow> server \<Rightarrow> reply \<times> server"
where
  "on_authorizeClient w sock clientId authorized' chans perms s =
     (if \<not> ClientManager_isAdmin (clientManager s) sock then (Failure Unauthorized, s)
      else if authorized'
      then (case authorizeClient (clientManager s) clientId chans perms of
              Inl e \<Rightarrow> (Failure e, s)
            | Inr (_, cm') \<Rightarrow>
                (case chans of
                   None \<Rightarrow> (Failure TypeError, s\<lparr>clientManager := cm'\<rparr>)
                 | Some cs \<Rightarrow>
                     (if cs = [] then (Success, s\<lparr>clientManager := cm'\<rparr>)
                      else if broadcast_join w then (Success, s\<lparr>clientManager := cm'\<rparr>)
                      else (Failure TypeError, s\<lparr>clientManager := cm'\<rparr>))))
      else (Success, s\<lparr>clientManager := snd (rejectClient (clientManager s) clientId)\<rparr>))"

definition authorizeClient_emits ::
  "library_reply \<Rightarrow> string \<Rightarrow> string \<Rightarrow> bool \<Rightarrow> string list option
     \<Rightarrow> permissions_arg option \<Rightarrow> server \<Rightarrow> event list"
where
  "authorizeClient_emits w sock clientId authorized' chans perms s =
     (if \<not> ClientManager_isAdmin (clientManager s) sock then []
      else if authorized'
      then (case authorizeClient (clientManager s) clientId chans perms of
              Inl e \<Rightarrow> []
            | Inr _ \<Rightarrow>
                (case chans of
                   None \<Rightarrow> []
                 | Some cs \<Rightarrow>
                     (if cs = [] then [ClientAuthorized clientId cs perms]
                      else if broadcast_join w then [ClientAuthorized clientId cs perms]
                      else [])))
      else [ClientRejected clientId])"

definition on_createChannel ::
  "string \<Rightarrow> string \<Rightarrow> string \<Rightarrow> string \<Rightarrow> server \<Rightarrow> reply \<times> server"
where
  "on_createChannel uuid sock channelName description s =
     (if \<not> ClientManager_isAdmin (clientManager s) sock then (Failure Unauthorized, s)
      else (let (ch, chm') = createChannel (channelManager s) uuid channelName description
            in (ChannelCreated ch, s\<lparr>channelManager := chm'\<rparr>)))"

definition createChannel_emits ::
  "string \<Rightarrow> string \<Rightarrow> string \<Rightarrow> string \<Rightarrow> server \<Rightarrow> event list"
where
  "createChannel_emits uuid sock channelName description s =
     (if \<not> ClientManager_isAdmin (clientManager s) sock then []
      else [ChannelCreatedBroadcast
              (fst (createChannel (channelManager s) uuid channelName description))])"

text \<open>
  \<open>startSpeaking\<close> returns without emitting when no client is found under the socket
  id or \<open>canSpeak\<close> is false for the channel (an exception of \<open>canSpeak\<close> is caught
  and logged); \<open>stopSpeaking\<close> tests only that a client is found.
\<close>

definition startSpeaking_emits :: "string \<Rightarrow> string \<Rightarrow> server \<Rightarrow> event list" where
  "startSpeaking_emits sock channelId s =
     (case getClientBySocketId (clientManager s) sock of
        None \<Rightarrow> []
      | Some cl \<Rightarrow>
          (case canSpeak (clientManager s) (client_id cl) channelId of
             Inl e \<Rightarrow> []
           | Inr allowed \<Rightarrow>
               (if allowed then [ClientSpeaking channelId (client_id cl) (client_name cl)]
                else [])))"

definition stopSpeaking_emits :: "string \<Rightarrow> string \<Rightarrow> server \<Rightarrow> event list" where
  "stopSpeaking_emits sock channelId s =
     (case getClientBySocketId (clientManager s) sock of
        None \<Rightarrow> []
      | Some cl \<Rightarrow> [ClientStoppedSpeaking channelId (client_id cl) (client_name cl)])"

definition on_toggleChannelMute :: "string \<Rightarrow> string \<Rightarrow> bool \<Rightarrow> server \<Rightarrow> reply \<times> server" where
  "on_toggleChannelMute sock channelId m s =
     (case getClientBySocketId (clientManager s) sock of
        None \<Rightarrow> (Failure ClientNotFound, s)
      | Some cl \<Rightarrow>
          (Success,
           s\<lparr>clientManager :=
               snd (setChannelMuteStatus (clientManager s) (client_id cl) channelId m)\<rparr>))"

definition on_adjustChannelVolume ::
  "string \<Rightarrow> string \<Rightarrow> js_number \<Rightarrow> server \<Rightarrow> reply \<times> server"
where
  "on_adjustChannelVolume sock channelId v s =
     (case getClientBySocketId (clientManager s) sock of
        None \<Rightarrow> (Failure ClientNotFound, s)
      | Some cl \<Rightarrow>
          (Success,
           s\<lparr>clientManager :=
               snd (setChannelVolume (clientManager s) (client_id cl) channelId v)\<rparr>))"

definition on_getRouterRtpCapabilities :: "server \<Rightarrow> reply \<times> server" where
  "on_getRouterRtpCapabilities s =
     (case getRtpCapabilities (mediasoupManager s) of
        Inl e \<Rightarrow> (Failure e, s)
      | Inr rtpCapabilities \<Rightarrow> (RtpCapabilities rtpCapabilities, s))"

definition on_createWebRtcTransport :: "library_reply \<Rightarrow> server \<Rightarrow> reply \<times> server" where
  "on_createWebRtcTransport w s =
     (case createWebRtcTransport (mediasoupManager s) w of
        Inl e \<Rightarrow> (Failure e, s)
      | Inr (t, ms') \<Rightarrow> (TransportParams (transport_id t), s\<lparr>mediasoupManager := ms'\<rparr>))"

definition on_connectWebRtcTransport :: "library_reply \<Rightarrow> string \<Rightarrow> server \<Rightarrow> reply \<times> server" where
  "on_connectWebRtcTransport w transportId s =
     (case connectWebRtcTransport (mediasoupManager s) w transportId of
        Inl e \<Rightarrow> (Failure e, s)
      | Inr _ \<Rightarrow> (Success, s))"

text \<open>
  \<open>produce\<close>: the producer is created first; then, for the client found under the
  socket id, \<open>client.channels.forEach\<close> adds the producer to each channel in which
  \<open>canSpeak\<close> holds. The loop stops at an exception, keeping what it has added.
\<close>

fun register_producer ::
  "client_manager \<Rightarrow> string \<Rightarrow> string \<Rightarrow> string list \<Rightarrow> channel_manager
     \<Rightarrow> error option \<times> channel_manager"
where
  "register_producer cm clientId producerId [] chm = (None, chm)"
| "register_producer cm clientId producerId (channelId # rest) chm =
     (case canSpeak cm clientId channelId of
        Inl e \<Rightarrow> (Some e, chm)
      | Inr allowed \<Rightarrow>
          register_producer cm clientId producerId rest
            (if allowed then snd (addProducerToChannel chm channelId producerId) else chm))"

definition on_produce ::
  "library_reply \<Rightarrow> string \<Rightarrow> string \<Rightarrow> string \<Rightarrow> server \<Rightarrow> reply \<times> server"
where
  "on_produce w sock transportId kind s =
     (case produce (mediasoupManager s) w transportId kind of
        Inl e \<Rightarrow> (Failure e, s)
      | Inr (p, ms') \<Rightarrow>
          (case getClientBySocketId (clientManager s) sock of
             None \<Rightarrow> (Produced (producer_id p), s\<lparr>mediasoupManager := ms'\<rparr>)
           | Some cl \<Rightarrow>
               (case register_producer (clientManager s) (client_id cl) (producer_id p)
                       (client_channels cl) (channelManager s) of
                  (Some e, chm') \<Rightarrow>
                    (Failure e, s\<lparr>mediasoupManager := ms', channelManager := chm'\<rparr>)
                | (None, chm') \<Rightarrow>
                    (Produced (producer_id p),
                     s\<lparr>mediasoupManager := ms', channelManager := chm'\<rparr>))))"

definition on_consume :: "library_reply \<Rightarrow> string \<Rightarrow> string \<Rightarrow> server \<Rightarrow> reply \<times> server" where
  "on_consume w transportId producerId s =
     (case consume (mediasoupManager s) w transportId producerId of
        Inl e \<Rightarrow> (Failure e, s)
      | Inr (c, ms') \<Rightarrow>
          (Consumed (consumer_id c) producerId, s\<lparr>mediasoupManager := ms'\<rparr>))"

text \<open>
  The handler of one connection: \<open>sock\<close> is \<open>socket.id\<close>, \<open>uuid\<close> what \<open>uuidv4()\<close>
  returns if the request draws an identifier, \<open>w\<close> what the mediasoup library does if
  the request reaches it.
\<close>

fun socketHandler ::
  "process_env \<Rightarrow> string \<Rightarrow> library_reply \<Rightarrow> string \<Rightarrow> request \<Rightarrow> server \<Rightarrow> reply \<times> server"
where
  "socketHandler env uuid w sock (Authenticate clientName serverPassword) s =
     on_authenticate env uuid sock clientName serverPassword s"
| "socketHandler env uuid w sock (AuthorizeClient clientId authorized' chans perms) s =
     on_authorizeClient w sock clientId authorized' chans perms s"
| "socketHandler env uuid w sock (CreateChannel channelName description) s =
     on_createChannel uuid sock channelName description s"
| "socketHandler env uuid w sock (StartSpeaking channelId) s = (NoReply, s)"
| "socketHandler env uuid w sock (StopSpeaking channelId) s = (NoReply, s)"
| "socketHandler env uuid w sock (ToggleChannelMute channelId m) s =
     on_toggleChannelMute sock channelId m s"
| "socketHandler env uuid w sock (AdjustChannelVolume channelId v) s =
     on_adjustChannelVolume sock channelId v s"
| "socketHandler env uuid w sock GetRouterRtpCapabilities s = on_getRouterRtpCapabilities s"
| "socketHandler env uuid w sock CreateWebRtcTransport s = on_createWebRtcTransport w s"
| "socketHandler env uuid w sock (ConnectWebRtcTransport transportId) s =
     on_connectWebRtcTransport w transportId s"
| "socketHandler env uuid w sock (Produce transportId kind) s =
     on_produce w sock transportId kind s"
| "socketHandler env uuid w sock (Consume transportId producerId) s =
     on_consume w transportId producerId s"

text \<open>The events the same request emits. The settings and media handlers emit none.\<close>

fun socketEmits ::
  "process_env \<Rightarrow> string \<Rightarrow> library_reply \<Rightarrow> string \<Rightarrow> request \<Rightarrow> server \<Rightarrow> event list"
where
  "socketEmits env uuid w sock (Authenticate clientName serverPassword) s =
     authenticate_emits env sock clientName serverPassword"
| "socketEmits env uuid w sock (AuthorizeClient clientId authorized' chans perms) s =
     authorizeClient_emits w sock clientId authorized' chans perms s"
| "socketEmits env uuid w sock (CreateChannel channelName description) s =
     createChannel_emits uuid sock channelName description s"
| "socketEmits env uuid w sock (StartSpeaking channelId) s =
     startSpeaking_emits sock channelId s"
| "socketEmits env uuid w sock (StopSpeaking channelId) s =
     stopSpeaking_emits sock channelId s"
| "socketEmits env uuid w sock (ToggleChannelMute channelId m) s = []"
| "socketEmits env uuid w sock (AdjustChannelVolume channelId v) s = []"
| "socketEmits env uuid w sock GetRouterRtpCapabilities s = []"
| "socketEmits env uuid w sock CreateWebRtcTransport s = []"
| "socketEmits env uuid w sock (ConnectWebRtcTransport transportId) s = []"
| "socketEmits env uuid w sock (Produce transportId kind) s = []"
| "socketEmits env uuid w sock (Consume transportId producerId) s = []"

subsection \<open>Sessions\<close>

text \<open>
  The code keeps no session state. What a connection is allowed to do is decided, where
  it is decided at all, by looking its socket id up in the client registry. Read against
  the specification's state machine: a connection is \<open>ACTIVE\<close> when
  \<open>getClientBySocketId\<close> finds a client for it, \<open>PENDING\<close> when only the pending
  queue holds its socket id, and \<open>NEW\<close> otherwise.
\<close>

datatype session_state = NEW | PENDING | ACTIVE

fun pending_with_socket :: "(string \<times> pending_client) list \<Rightarrow> string \<Rightarrow> bool" where
  "pending_with_socket [] sock = False"
| "pending_with_socket ((clientId, pc) # rest) sock =
     (if pending_socketId pc = Some sock then True else pending_with_socket rest sock)"

definition session_state_of :: "client_manager \<Rightarrow> string \<Rightarrow> session_state" where
  "session_state_of cm sock =
     (case getClientBySocketId cm sock of
        Some cl \<Rightarrow> ACTIVE
      | None \<Rightarrow> if pending_with_socket (pendingClients cm) sock then PENDING else NEW)"

subsection \<open>Example states\<close>

text \<open>
  Client \<open>bob\<close> (id \<open>c1\<close>, socket \<open>s1\<close>) is a member of channel \<open>main\<close>, may speak
  there and may not listen anywhere.
\<close>

definition bob :: client where
  "bob =
     \<lparr>client_id = ''c1'', client_name = ''bob'', socketId = Some ''s1'', isAdmin = False,
      authorized = True, client_channels = [''main''],
      permissions = \<lparr>speakToAll = False, listenToAll = False,
                     speakTo = Some [''main'' \<mapsto> True], listenTo = Some Map.empty\<rparr>,
      channelSettings = [''main'' \<mapsto> default_settings]\<rparr>"

definition registry_bob :: client_manager where
  "registry_bob = \<lparr>clients = [(''c1'', bob)], pendingClients = []\<rparr>"

definition patch_listen_main :: permissions_arg where
  "patch_listen_main =
     \<lparr>arg_isAdmin = None, arg_speakToAll = None, arg_listenToAll = Some True,
      arg_speakTo = None, arg_listenTo = Some [''main'' \<mapsto> True]\<rparr>"

text \<open>
  \<open>carol\<close> (id \<open>c7\<close>, socket \<open>s7\<close>) has no permission at all; her channel list and
  settings vary between the examples. \<open>pending_carol\<close> is the registry in which she
  still waits for authorization.
\<close>

definition carol :: "string list \<Rightarrow> (string \<rightharpoonup> channel_settings) \<Rightarrow> client" where
  "carol chans settings =
     \<lparr>client_id = ''c7'', client_name = ''carol'', socketId = Some ''s7'', isAdmin = False,
      authorized = True, client_channels = chans,
      permissions = \<lparr>speakToAll = False, listenToAll = False,
                     speakTo = Some Map.empty, listenTo = Some Map.empty\<rparr>,
      channelSettings = settings\<rparr>"

definition registry_carol ::
  "string list \<Rightarrow> (string \<rightharpoonup> channel_settings) \<Rightarrow> client_manager"
where
  "registry_carol chans settings =
     \<lparr>clients = [(''c7'', carol chans settings)], pendingClients = []\<rparr>"

definition pending_carol :: client_manager where
  "pending_carol =
     \<lparr>clients = [],
      pendingClients = [(''c7'', \<lparr>pending_id = ''c7'', pending_name = ''carol'',
                                 pending_socketId = Some ''s7''\<rparr>)]\<rparr>"

definition no_permissions :: permissions_arg where
  "no_permissions =
     \<lparr>arg_isAdmin = None, arg_speakToAll = None, arg_listenToAll = None,
      arg_speakTo = None, arg_listenTo = None\<rparr>"

definition rename_to_Main :: channel_updates where
  "rename_to_Main = \<lparr>updates_name = Some ''Main'', updates_description = None\<rparr>"

text \<open>
  \<open>studio\<close>: one channel \<open>main\<close>; \<open>alice\<close> (socket \<open>s0\<close>) speaks and listens
  everywhere and has a producer \<open>p0\<close> registered in \<open>main\<close>; \<open>bob\<close> and \<open>carol\<close>
  are members of \<open>main\<close>; \<open>dave\<close> (socket \<open>s8\<close>) is pending; every client has a
  transport.
\<close>

definition alice :: client where
  "alice =
     \<lparr>client_id = ''c0'', client_name = ''alice'', socketId = Some ''s0'', isAdmin = True,
      authorized = True, client_channels = [''main''],
      permissions = \<lparr>speakToAll = True, listenToAll = True,
                     speakTo = Some Map.empty, listenTo = Some Map.empty\<rparr>,
      channelSettings = [''main'' \<mapsto> default_settings]\<rparr>"

definition studio :: server where
  "studio =
     \<lparr>channelManager =
        \<lparr>channels =
           [(''main'',
             \<lparr>channel_id = ''main'', channel_name = ''Main'', channel_description = [],
              channel_clients = {''c0'', ''c1'', ''c7''}, channel_producers = {''p0''}\<rparr>)]\<rparr>,
      clientManager =
        \<lparr>clients = [(''c0'', alice), (''c1'', bob),
                    (''c7'', carol [''main''] [''main'' \<mapsto> default_settings])],
         pendingClients = [(''c8'', \<lparr>pending_id = ''c8'', pending_name = ''dave'',
                                    pending_socketId = Some ''s8''\<rparr>)]\<rparr>,
      mediasoupManager =
        \<lparr>router = Some ''opus'',
         transports = [''t0'' \<mapsto> \<lparr>transport_id = ''t0''\<rparr>,
                       ''t1'' \<mapsto> \<lparr>transport_id = ''t1''\<rparr>,
                       ''t7'' \<mapsto> \<lparr>transport_id = ''t7''\<rparr>],
         producers = [''p0'' \<mapsto> \<lparr>producer_id = ''p0'', producer_kind = ''audio'',
                                  producer_transportId = ''t0''\<rparr>],
         consumers = Map.empty\<rparr>\<rparr>"

definition worker_ok :: library_reply where
  "worker_ok =
     \<lparr>worker_accepts = True, worker_id = ''k1'', worker_canConsume = True,
      broadcast_join = True\<rparr>"

definition env_unset :: process_env where
  "env_unset = \<lparr>SERVER_PASSWORD = None\<rparr>"

section \<open>The claims\<close>

subsection \<open>C3: the permission evaluator\<close>

text \<open>
  Claim C3. For a registered client \<open>c\<close> with record \<open>cl\<close> and any channel id \<open>C\<close>,
  \<open>canSpeak\<close> returns \<open>true\<close> exactly when \<open>C\<close> is in the client's channel list and
  \<open>speakToAll\<close> holds or \<open>speakTo[C]\<close> is \<open>true\<close>; \<open>canListen\<close> likewise with
  \<open>listenToAll\<close> and \<open>listenTo[C]\<close>; for a client id that is not registered both
  return \<open>false\<close>.
\<close>

theorem canSpeak_canListen_spec:
  "(map_of (clients cm) c = Some cl \<longrightarrow>
      (canSpeak cm c C = Inr True \<longleftrightarrow>
         C \<in> set (client_channels cl) \<and>
         (speakToAll (permissions cl) \<or>
          (case speakTo (permissions cl) of None \<Rightarrow> False | Some m \<Rightarrow> m C = Some True))) \<and>
      (canListen cm c C = Inr True \<longleftrightarrow>
         C \<in> set (client_channels cl) \<and>
         (listenToAll (permissions cl) \<or>
          (case listenTo (permissions cl) of None \<Rightarrow> False | Some m \<Rightarrow> m C = Some True)))) \<and>
   (map_of (clients cm) c = None \<longrightarrow>
      canSpeak cm c C = Inr False \<and> canListen cm c C = Inr False)"
  by (simp add: canSpeak_def canListen_def split: option.splits)

theorem canSpeak_canListen_spec_witness:
  "map_of (clients registry_bob) ''c1'' = Some bob \<and>
   canSpeak registry_bob ''c1'' ''main'' = Inr True \<and>
   canListen registry_bob ''c1'' ''main'' \<noteq> Inr True \<and>
   map_of (clients registry_bob) ''c2'' = None \<and>
   canSpeak registry_bob ''c2'' ''main'' = Inr False \<and>
   canListen registry_bob ''c2'' ''main'' = Inr False"
  using canSpeak_canListen_spec [of registry_bob "''c1''" bob "''main''"]
        canSpeak_canListen_spec [of registry_bob "''c2''" bob "''main''"]
  by (simp add: registry_bob_def bob_def)

text \<open>
  Where the permission maps are defined (every client made by \<open>authorizeClient\<close>), the
  evaluator always returns a boolean; it throws only for a member whose global flag is
  off and whose map is missing.
\<close>

lemma canSpeak_total:
  "map_of (clients cm) c = Some cl \<Longrightarrow> speakTo (permissions cl) = Some m \<Longrightarrow>
   canSpeak cm c C =
     Inr (C \<in> set (client_channels cl) \<and> (speakToAll (permissions cl) \<or> m C = Some True))"
  by (simp add: canSpeak_def)

lemma canListen_total:
  "map_of (clients cm) c = Some cl \<Longrightarrow> listenTo (permissions cl) = Some m \<Longrightarrow>
   canListen cm c C =
     Inr (C \<in> set (client_channels cl) \<and> (listenToAll (permissions cl) \<or> m C = Some True))"
  by (simp add: canListen_def)

subsection \<open>C10: updating permissions touches nothing else\<close>

text \<open>
  Claim C10. For a registered client, \<open>updateClientPermissions\<close> succeeds and changes
  only what the patch names: \<open>speakToAll\<close> and \<open>listenToAll\<close> are overwritten only
  when the patch defines them; \<open>speakTo\<close> and \<open>listenTo\<close> are merged key by key, so a
  key the patch does not mention keeps its value; every other field of the client, every
  other client and the pending queue stay as they were.
\<close>

theorem updateClientPermissions_frame:
  assumes "map_of (clients cm) c = Some cl"
  shows "fst (updateClientPermissions cm c p) = True \<and>
         pendingClients (snd (updateClientPermissions cm c p)) = pendingClients cm \<and>
         (\<forall>c'. c' \<noteq> c \<longrightarrow>
            map_of (clients (snd (updateClientPermissions cm c p))) c' = map_of (clients cm) c') \<and>
         (\<exists>cl'. map_of (clients (snd (updateClientPermissions cm c p))) c = Some cl' \<and>
            cl'\<lparr>permissions := permissions cl\<rparr> = cl \<and>
            speakToAll (permissions cl') =
              (case arg_speakToAll p of None \<Rightarrow> speakToAll (permissions cl) | Some b \<Rightarrow> b) \<and>
            listenToAll (permissions cl') =
              (case arg_listenToAll p of None \<Rightarrow> listenToAll (permissions cl) | Some b \<Rightarrow> b) \<and>
            (case arg_speakTo p of
               None \<Rightarrow> speakTo (permissions cl') = speakTo (permissions cl)
             | Some m \<Rightarrow>
                 (\<exists>m'. speakTo (permissions cl') = Some m' \<and>
                    (\<forall>k. m' k = (if k \<in> dom m then m k
                                  else or_empty (speakTo (permissions cl)) k)))) \<and>
            (case arg_listenTo p of
               None \<Rightarrow> listenTo (permissions cl') = listenTo (permissions cl)
             | Some m \<Rightarrow>
                 (\<exists>m'. listenTo (permissions cl') = Some m' \<and>
                    (\<forall>k. m' k = (if k \<in> dom m then m k
                                  else or_empty (listenTo (permissions cl)) k)))))"
  using assms
  by (auto simp: updateClientPermissions_def AList.update_conv' Let_def map_add_def dom_def
           split: option.splits)

theorem updateClientPermissions_frame_witness:
  "map_of (clients registry_bob) ''c1'' = Some bob \<and>
   fst (updateClientPermissions registry_bob ''c1'' patch_listen_main) = True \<and>
   map_option (\<lambda>cl'. speakToAll (permissions cl'))
     (map_of (clients (snd (updateClientPermissions registry_bob ''c1'' patch_listen_main)))
        ''c1'') = Some False \<and>
   map_option (\<lambda>cl'. listenToAll (permissions cl'))
     (map_of (clients (snd (updateClientPermissions registry_bob ''c1'' patch_listen_main)))
        ''c1'') = Some True \<and>
   map_option (\<lambda>cl'. map_option (\<lambda>m. m ''main'') (speakTo (permissions cl')))
     (map_of (clients (snd (updateClientPermissions registry_bob ''c1'' patch_listen_main)))
        ''c1'') = Some (Some (Some True)) \<and>
   map_option (\<lambda>cl'. map_option (\<lambda>m. m ''main'') (listenTo (permissions cl')))
     (map_of (clients (snd (updateClientPermissions registry_bob ''c1'' patch_listen_main)))
        ''c1'') = Some (Some (Some True)) \<and>
   map_option client_channels
     (map_of (clients (snd (updateClientPermissions registry_bob ''c1'' patch_listen_main)))
        ''c1'') = Some [''main'']"
proof -
  have h: "map_of (clients registry_bob) ''c1'' = Some bob"
    by (simp add: registry_bob_def)
  have ok: "fst (updateClientPermissions registry_bob ''c1'' patch_listen_main) = True"
    using updateClientPermissions_frame [OF h, of patch_listen_main] by simp
  have r: "map_of (clients (snd (updateClientPermissions registry_bob ''c1'' patch_listen_main)))
             ''c1'' =
           Some (bob\<lparr>permissions :=
                       \<lparr>speakToAll = False, listenToAll = True,
                        speakTo = Some [''main'' \<mapsto> True],
                        listenTo = Some [''main'' \<mapsto> True]\<rparr>\<rparr>)"
    by (simp add: updateClientPermissions_def registry_bob_def bob_def patch_listen_main_def)
  show ?thesis
    using h ok by (simp add: r) (simp add: bob_def)
qed

subsection \<open>C5: an unset server password never authenticates\<close>

text \<open>
  Claim C5. When \<open>SERVER_PASSWORD\<close> is not set, authentication fails for every
  supplied password value: \<open>authenticateClient\<close> returns \<open>false\<close>, and the
  \<open>authenticate\<close> handler answers \<open>Invalid server password\<close> and enrols nobody.
\<close>

theorem unset_password_fails_closed:
  "authenticateClient \<lparr>SERVER_PASSWORD = None\<rparr> serverPassword = False \<and>
   socketHandler \<lparr>SERVER_PASSWORD = None\<rparr> uuid w sock
       (Authenticate clientName serverPassword) s =
     (Failure InvalidServerPassword, s)"
  by (cases serverPassword) (simp_all add: authenticateClient_def on_authenticate_def)

theorem unset_password_fails_closed_witness:
  "authenticateClient env_unset (JString ''whisperwire_dev_server'') = False \<and>
   socketHandler env_unset ''u1'' worker_ok ''s9''
       (Authenticate ''eve'' (JString ''whisperwire_dev_server'')) studio =
     (Failure InvalidServerPassword, studio) \<and>
   authenticateClient env_unset JUndefined = False \<and>
   socketHandler env_unset ''u1'' worker_ok ''s9'' (Authenticate ''eve'' JUndefined) studio =
     (Failure InvalidServerPassword, studio)"
  using unset_password_fails_closed
          [of "JString ''whisperwire_dev_server''" "''u1''" worker_ok "''s9''" "''eve''" studio]
        unset_password_fails_closed [of JUndefined "''u1''" worker_ok "''s9''" "''eve''" studio]
  by (simp add: env_unset_def)

subsection \<open>C6: the System channel\<close>

text \<open>
  The registry starts with one channel, named \<open>System\<close>, and \<open>deleteChannel\<close> refuses
  any channel that currently bears that name.
\<close>

lemma new_ChannelManager_System:
  "channels (new_ChannelManager uuid) =
     [(uuid, \<lparr>channel_id = uuid, channel_name = ''System'',
              channel_description = ''System-wide announcements and notifications'',
              channel_clients = {}, channel_producers = {}\<rparr>)]"
  by (simp add: new_ChannelManager_def createChannel_def Let_def)

lemma deleteChannel_System_refused:
  "map_of (channels chm) channelId = Some ch \<Longrightarrow> channel_name ch = ''System'' \<Longrightarrow>
   deleteChannel chm channelId = (False, chm)"
  by (simp add: deleteChannel_def)

lemma deleteChannel_keeps_System:
  "map_of (channels chm) k = Some ch \<Longrightarrow> channel_name ch = ''System'' \<Longrightarrow>
   map_of (channels (snd (deleteChannel chm channelId))) k = Some ch"
  by (cases "channelId = k") (auto simp: deleteChannel_def AList.delete_conv')

lemma createChannel_keeps_others:
  "map_of (channels chm) k = Some ch \<Longrightarrow> uuid \<noteq> k \<Longrightarrow>
   map_of (channels (snd (createChannel chm uuid name description))) k = Some ch"
  by (simp add: createChannel_def Let_def AList.update_conv')

text \<open>
  Claim C6 says that the system channel exists and the registry is never empty, for any
  sequence of create, update-metadata and delete operations. The protection is by name,
  and \<open>updateChannel\<close> renames any channel: on the fresh registry, deleting the System
  channel is refused, but after renaming it to \<open>Main\<close> the same deletion succeeds and
  leaves no channel at all.
\<close>

theorem renamed_System_channel_deleted:
  "map_option channel_name (map_of (channels (new_ChannelManager ''ch0'')) ''ch0'') =
     Some ''System'' \<and>
   deleteChannel (new_ChannelManager ''ch0'') ''ch0'' = (False, new_ChannelManager ''ch0'') \<and>
   deleteChannel (snd (updateChannel (new_ChannelManager ''ch0'') ''ch0'' rename_to_Main))
       ''ch0'' =
     (True, \<lparr>channels = []\<rparr>)"
  by (simp add: new_ChannelManager_def createChannel_def updateChannel_def deleteChannel_def
        rename_to_Main_def getChannelInfo_def Let_def)

subsection \<open>C8: settings domain and channel list\<close>

lemma dom_init_settings: "dom (init_settings cs m) = dom m \<union> set cs"
  by (induction cs arbitrary: m) auto

lemma init_settings_lookup:
  "init_settings cs m C = (if C \<in> set cs then Some default_settings else m C)"
  by (induction cs arbitrary: m) auto

text \<open>
  \<open>authorizeClient\<close> establishes the equality, with default settings for every channel
  given; \<open>addClientToChannel\<close> keeps it; \<open>removeClientFromChannel\<close> keeps it when the
  channel list has no repeated id.
\<close>

lemma authorizeClient_settings_domain:
  assumes "authorizeClient cm c chans perms = Inr (Some cl, cm')"
  shows "map_of (clients cm') c = Some cl \<and>
         dom (channelSettings cl) = set (client_channels cl) \<and>
         (\<forall>C \<in> set (client_channels cl). channelSettings cl C = Some default_settings)"
proof -
  obtain pc p where pc: "map_of (pendingClients cm) c = Some pc" and p: "perms = Some p"
    using assms by (auto simp: authorizeClient_def split: option.splits)
  define cs where "cs = (case chans of None \<Rightarrow> [] | Some xs \<Rightarrow> xs)"
  have st: "(case chans of None \<Rightarrow> Map.empty | Some xs \<Rightarrow> init_settings xs Map.empty) =
            init_settings cs Map.empty"
    by (simp add: cs_def split: option.splits)
  have cl: "client_channels cl = cs" "channelSettings cl = init_settings cs Map.empty"
    and m: "map_of (clients cm') c = Some cl"
    using assms pc p st
    by (auto simp: authorizeClient_def getClientInfo_def AList.update_conv' Let_def cs_def)
  have "dom (channelSettings cl) = set (client_channels cl)"
    by (simp add: cl dom_init_settings)
  moreover have "\<forall>C \<in> set (client_channels cl). channelSettings cl C = Some default_settings"
    by (simp add: cl init_settings_lookup)
  ultimately show ?thesis using m by simp
qed

lemma addClientToChannel_settings_domain:
  assumes "map_of (clients cm) c = Some cl"
    and "dom (channelSettings cl) = set (client_channels cl)"
    and "map_of (clients (snd (addClientToChannel cm c C))) c = Some cl'"
  shows "dom (channelSettings cl') = set (client_channels cl')"
proof (cases "C \<in> set (client_channels cl)")
  case True
  then have "cl' = cl"
    using assms(1,3) by (simp add: addClientToChannel_def)
  then show ?thesis using assms(2) by simp
next
  case False
  then have "channelSettings cl C = None"
    using assms(2) by (auto simp: dom_def)
  then have "cl' = cl\<lparr>client_channels := client_channels cl @ [C],
                       channelSettings := (channelSettings cl)(C \<mapsto> default_settings)\<rparr>"
    using False assms(1,3) by (simp add: addClientToChannel_def AList.update_conv' Let_def)
  then show ?thesis using assms(2) by simp
qed

lemma removeClientFromChannel_settings_domain:
  assumes "map_of (clients cm) c = Some cl"
    and "dom (channelSettings cl) = set (client_channels cl)"
    and "distinct (client_channels cl)"
    and "map_of (clients (snd (removeClientFromChannel cm c C))) c = Some cl'"
  shows "dom (channelSettings cl') = set (client_channels cl') \<and> distinct (client_channels cl')"
proof (cases "C \<in> set (client_channels cl)")
  case True
  then have cl': "cl' = cl\<lparr>client_channels := remove1 C (client_channels cl),
                            channelSettings := (channelSettings cl)(C := None)\<rparr>"
    using assms(1,4) by (simp add: removeClientFromChannel_def AList.update_conv')
  have "dom ((channelSettings cl)(C := None)) = set (client_channels cl) - {C}"
    using assms(2) by simp
  then show ?thesis
    using assms(3) by (simp add: cl')
next
  case False
  then have "cl' = cl"
    using assms(1,4) by (simp add: removeClientFromChannel_def)
  then show ?thesis
    using assms(2,3) by simp
qed

text \<open>
  Claim C8 says that the domain of a client's settings equals its channel set, and that
  authorize, addToChannel and removeFromChannel preserve this. \<open>authorizeClient\<close> stores
  the channel array as given, without the duplicate test that \<open>addClientToChannel\<close>
  makes. For a pending client authorized with \<open>[main, main]\<close> the equality holds, and
  one \<open>removeClientFromChannel\<close> breaks it: one \<open>main\<close> stays in the channel list
  while the settings entry is gone.
\<close>

theorem settings_domain_broken:
  "authorizeClient pending_carol ''c7'' (Some [''main'', ''main'']) (Some no_permissions) =
     Inr (Some (carol [''main'', ''main''] [''main'' \<mapsto> default_settings]),
          registry_carol [''main'', ''main''] [''main'' \<mapsto> default_settings]) \<and>
   removeClientFromChannel
       (registry_carol [''main'', ''main''] [''main'' \<mapsto> default_settings]) ''c7'' ''main'' =
     (True, registry_carol [''main''] Map.empty) \<and>
   set (client_channels (carol [''main''] Map.empty)) = {''main''} \<and>
   dom (channelSettings (carol [''main''] Map.empty)) = {}"
  by (simp add: authorizeClient_def pending_carol_def no_permissions_def carol_def
        registry_carol_def getClientInfo_def removeClientFromChannel_def Let_def)

subsection \<open>C7: volume is clamped\<close>

text \<open>
  The value \<open>setChannelVolume\<close> computes: a real is clamped to \<open>[0, 1]\<close>, the
  infinities go to the nearer bound, \<open>NaN\<close> stays \<open>NaN\<close>.
\<close>

lemma normalizedVolume_cases:
  "Math_max (Number 0) (Math_min (Number 1) v) =
     (case v of
        Number x \<Rightarrow> Number (if x < 0 then 0 else if 1 < x then 1 else x)
      | PosInfinity \<Rightarrow> Number 1
      | NegInfinity \<Rightarrow> Number 0
      | NaN \<Rightarrow> NaN)"
  by (cases v) auto

text \<open>
  The guard of \<open>setChannelVolume\<close> is the settings entry. For a registered client that
  has one for the channel, the call succeeds and stores the clamped value.
\<close>

lemma setChannelVolume_clamps:
  assumes "map_of (clients cm) c = Some cl" and "channelSettings cl C = Some st"
  shows "fst (setChannelVolume cm c C (Number x)) = True \<and>
         map_option (\<lambda>cl'. map_option volume (channelSettings cl' C))
            (map_of (clients (snd (setChannelVolume cm c C (Number x)))) c) =
           Some (Some (Number (if x < 0 then 0 else if 1 < x then 1 else x)))"
  using assms
  by (simp add: setChannelVolume_def AList.update_conv' Let_def normalizedVolume_cases)

text \<open>
  Where the settings domain of the client equals its channel list, as the data model
  requires, that is the claim: for a member of the channel and every real input, the
  clamped value is stored.
\<close>

lemma setChannelVolume_member_clamps:
  assumes "map_of (clients cm) c = Some cl"
    and "dom (channelSettings cl) = set (client_channels cl)"
    and "C \<in> set (client_channels cl)"
  shows "fst (setChannelVolume cm c C (Number x)) = True \<and>
         map_option (\<lambda>cl'. map_option volume (channelSettings cl' C))
            (map_of (clients (snd (setChannelVolume cm c C (Number x)))) c) =
           Some (Some (Number (if x < 0 then 0 else if 1 < x then 1 else x)))"
proof -
  from assms(2,3) obtain st where "channelSettings cl C = Some st"
    by (auto simp: dom_def)
  with assms(1) show ?thesis
    by (rule setChannelVolume_clamps)
qed

lemma setChannelVolume_examples:
  "map_option (\<lambda>cl'. map_option volume (channelSettings cl' ''main''))
     (map_of (clients (snd (setChannelVolume registry_bob ''c1'' ''main'' (Number (- 1 / 2)))))
        ''c1'') = Some (Some (Number 0)) \<and>
   map_option (\<lambda>cl'. map_option volume (channelSettings cl' ''main''))
     (map_of (clients (snd (setChannelVolume registry_bob ''c1'' ''main'' (Number (3 / 2)))))
        ''c1'') = Some (Some (Number 1)) \<and>
   map_option (\<lambda>cl'. map_option volume (channelSettings cl' ''main''))
     (map_of (clients (snd (setChannelVolume registry_bob ''c1'' ''main'' (Number (1 / 4)))))
        ''c1'') = Some (Some (Number (1 / 4)))"
  by (simp add: setChannelVolume_def registry_bob_def bob_def default_settings_def)

text \<open>
  A volume that is not a number at all (a payload without the property, or with a
  string that is no numeral) reaches \<open>Math.min\<close> as \<open>NaN\<close> and is stored as
  \<open>NaN\<close>, with success.
\<close>

lemma setChannelVolume_NaN:
  "fst (setChannelVolume registry_bob ''c1'' ''main'' NaN) = True \<and>
   map_option (\<lambda>cl'. map_option volume (channelSettings cl' ''main''))
     (map_of (clients (snd (setChannelVolume registry_bob ''c1'' ''main'' NaN))) ''c1'') =
     Some (Some NaN)"
  by (simp add: setChannelVolume_def registry_bob_def bob_def default_settings_def)

text \<open>
  Claim C7 says that for every client that is a member of channel \<open>C\<close> and every
  numeric input, \<open>setChannelVolume\<close> stores the input clamped to \<open>[0, 1]\<close>. The code
  breaks it through the same slip as in C8: after \<open>carol\<close> has been authorized with
  \<open>[main, main]\<close> and removed from \<open>main\<close> once, she is still a member of \<open>main\<close>
  but has no settings entry, and the call returns \<open>false\<close> and stores nothing.
\<close>

theorem setChannelVolume_member_without_settings:
  "authorizeClient pending_carol ''c7'' (Some [''main'', ''main'']) (Some no_permissions) =
     Inr (Some (carol [''main'', ''main''] [''main'' \<mapsto> default_settings]),
          registry_carol [''main'', ''main''] [''main'' \<mapsto> default_settings]) \<and>
   snd (removeClientFromChannel
          (registry_carol [''main'', ''main''] [''main'' \<mapsto> default_settings])
          ''c7'' ''main'') =
     registry_carol [''main''] Map.empty \<and>
   map_of (clients (registry_carol [''main''] Map.empty)) ''c7'' =
     Some (carol [''main''] Map.empty) \<and>
   ''main'' \<in> set (client_channels (carol [''main''] Map.empty)) \<and>
   setChannelVolume (registry_carol [''main''] Map.empty) ''c7'' ''main'' (Number (1 / 2)) =
     (False, registry_carol [''main''] Map.empty)"
  by (simp add: setChannelVolume_def registry_carol_def carol_def authorizeClient_def
        pending_carol_def no_permissions_def getClientInfo_def removeClientFromChannel_def
        Let_def)

subsection \<open>C9: joining and leaving a channel\<close>

text \<open>
  Claim C9 as stated, for every client and channel, fails for a client that is already a
  member: \<open>addClientToChannel\<close> then does nothing, and \<open>removeClientFromChannel\<close>
  takes the channel out of the list.
\<close>

theorem add_then_remove_member_counterexample:
  "map_option client_channels (map_of (clients registry_bob) ''c1'') = Some [''main''] \<and>
   addClientToChannel registry_bob ''c1'' ''main'' = (False, registry_bob) \<and>
   fst (removeClientFromChannel (snd (addClientToChannel registry_bob ''c1'' ''main''))
          ''c1'' ''main'') = True \<and>
   map_option client_channels
     (map_of (clients (snd (removeClientFromChannel
                              (snd (addClientToChannel registry_bob ''c1'' ''main''))
                              ''c1'' ''main''))) ''c1'') = Some []"
  by (simp add: addClientToChannel_def removeClientFromChannel_def registry_bob_def bob_def)

text \<open>
  Claim C9, amended. For every registered client \<open>c\<close> that is not yet a member of
  \<open>C\<close>, \<open>addClientToChannel(c, C)\<close> followed by \<open>removeClientFromChannel(c, C)\<close>
  both succeed and leave the client's record as it was (permissions, channel list in its
  order, and every other field) except that the settings have no entry for \<open>C\<close>; all
  other clients and the pending queue are unchanged.
\<close>

theorem add_then_remove_restores:
  assumes "map_of (clients cm) c = Some cl" and "C \<notin> set (client_channels cl)"
  shows "fst (addClientToChannel cm c C) = True \<and>
         fst (removeClientFromChannel (snd (addClientToChannel cm c C)) c C) = True \<and>
         map_of (clients (snd (removeClientFromChannel (snd (addClientToChannel cm c C)) c C)))
             c =
           Some (cl\<lparr>channelSettings := (channelSettings cl)(C := None)\<rparr>) \<and>
         (\<forall>c'. c' \<noteq> c \<longrightarrow>
            map_of (clients (snd (removeClientFromChannel (snd (addClientToChannel cm c C))
                                    c C))) c' =
            map_of (clients cm) c') \<and>
         pendingClients (snd (removeClientFromChannel (snd (addClientToChannel cm c C)) c C)) =
           pendingClients cm"
  using assms
  by (auto simp: addClientToChannel_def removeClientFromChannel_def AList.update_conv' Let_def
        remove1_append)

text \<open>For an id that is not registered both calls fail and nothing changes.\<close>

lemma add_then_remove_unknown:
  "map_of (clients cm) c = None \<Longrightarrow>
   addClientToChannel cm c C = (False, cm) \<and> removeClientFromChannel cm c C = (False, cm)"
  by (simp add: addClientToChannel_def removeClientFromChannel_def)

theorem add_then_remove_restores_witness:
  "map_of (clients registry_bob) ''c1'' = Some bob \<and>
   ''cams'' \<notin> set (client_channels bob) \<and>
   map_of (clients (snd (removeClientFromChannel
                           (snd (addClientToChannel registry_bob ''c1'' ''cams''))
                           ''c1'' ''cams''))) ''c1'' = Some bob"
proof -
  have h: "map_of (clients registry_bob) ''c1'' = Some bob"
    by (simp add: registry_bob_def)
  have n: "''cams'' \<notin> set (client_channels bob)"
    by (simp add: bob_def)
  have e: "bob\<lparr>channelSettings := (channelSettings bob)(''cams'' := None)\<rparr> = bob"
    by (simp add: bob_def)
  show ?thesis
    using add_then_remove_restores [OF h n] h n by (simp add: e)
qed

subsection \<open>C1: consume\<close>

text \<open>
  Claim C1 as stated fails: the \<open>consume\<close> handler goes straight to the Media Worker
  and evaluates no permission. In \<open>studio\<close>, \<open>bob\<close> may listen in no channel (his only
  channel is \<open>main\<close>, and \<open>canListen\<close> is false there), yet his request to consume
  \<open>alice\<close>'s producer \<open>p0\<close> succeeds and the consumer is stored.
\<close>

theorem consume_without_listen_counterexample:
  "getClientBySocketId (clientManager studio) ''s1'' = Some bob \<and>
   client_channels bob = [''main''] \<and>
   canListen (clientManager studio) ''c1'' ''main'' = Inr False \<and>
   fst (socketHandler env_unset ''u1'' worker_ok ''s1'' (Consume ''t1'' ''p0'') studio) =
     Consumed ''k1'' ''p0'' \<and>
   consumers (mediasoupManager
       (snd (socketHandler env_unset ''u1'' worker_ok ''s1'' (Consume ''t1'' ''p0'') studio)))
     ''k1'' =
     Some \<lparr>consumer_id = ''k1'', consumer_producerId = ''p0'', consumer_transportId = ''t1''\<rparr>"
  by (simp add: studio_def bob_def alice_def carol_def worker_ok_def getClientBySocketId_def
        getClientInfo_def canListen_def on_consume_def consume_def Let_def)

text \<open>
  Claim C1, amended. No permission is evaluated for a consume request. A consumer,
  pairing the named producer with the named transport, is created exactly when the
  transport id is known, the producer id is known, the router exists and answers that it
  can consume, and the library call succeeds. Otherwise the request fails with the error
  of the first test that fails, in this order: transport not found, producer not found,
  no router, cannot consume, library error; the state is then unchanged, so no consumer
  is created. The reply and the resulting media state are the same whatever the client
  registry, the channel registry and the requesting socket are.
\<close>

theorem consume_depends_on_media_only:
  "(transports (mediasoupManager s) t \<noteq> None \<and> producers (mediasoupManager s) p \<noteq> None \<and>
    router (mediasoupManager s) \<noteq> None \<and> worker_canConsume w \<and> worker_accepts w \<longrightarrow>
      socketHandler env uuid w sock (Consume t p) s =
        (Consumed (worker_id w) p,
         s\<lparr>mediasoupManager :=
             (mediasoupManager s)
               \<lparr>consumers :=
                  (consumers (mediasoupManager s))
                    (worker_id w \<mapsto> \<lparr>consumer_id = worker_id w, consumer_producerId = p,
                                      consumer_transportId = t\<rparr>)\<rparr>\<rparr>)) \<and>
   (transports (mediasoupManager s) t = None \<longrightarrow>
      socketHandler env uuid w sock (Consume t p) s = (Failure (TransportNotFound t), s)) \<and>
   (transports (mediasoupManager s) t \<noteq> None \<and> producers (mediasoupManager s) p = None \<longrightarrow>
      socketHandler env uuid w sock (Consume t p) s = (Failure (ProducerNotFound p), s)) \<and>
   (transports (mediasoupManager s) t \<noteq> None \<and> producers (mediasoupManager s) p \<noteq> None \<and>
    router (mediasoupManager s) = None \<longrightarrow>
      socketHandler env uuid w sock (Consume t p) s = (Failure TypeError, s)) \<and>
   (transports (mediasoupManager s) t \<noteq> None \<and> producers (mediasoupManager s) p \<noteq> None \<and>
    router (mediasoupManager s) \<noteq> None \<and> \<not> worker_canConsume w \<longrightarrow>
      socketHandler env uuid w sock (Consume t p) s = (Failure CannotConsume, s)) \<and>
   (transports (mediasoupManager s) t \<noteq> None \<and> producers (mediasoupManager s) p \<noteq> None \<and>
    router (mediasoupManager s) \<noteq> None \<and> worker_canConsume w \<and> \<not> worker_accepts w \<longrightarrow>
      socketHandler env uuid w sock (Consume t p) s = (Failure WorkerError, s)) \<and>
   (\<not> (transports (mediasoupManager s) t \<noteq> None \<and> producers (mediasoupManager s) p \<noteq> None \<and>
       router (mediasoupManager s) \<noteq> None \<and> worker_canConsume w \<and> worker_accepts w) \<longrightarrow>
      snd (socketHandler env uuid w sock (Consume t p) s) = s \<and>
      (\<exists>e. fst (socketHandler env uuid w sock (Consume t p) s) = Failure e)) \<and>
   fst (socketHandler env' uuid' w sock' (Consume t p)
          (s\<lparr>clientManager := cm', channelManager := chm'\<rparr>)) =
     fst (socketHandler env uuid w sock (Consume t p) s) \<and>
   mediasoupManager (snd (socketHandler env' uuid' w sock' (Consume t p)
                            (s\<lparr>clientManager := cm', channelManager := chm'\<rparr>))) =
     mediasoupManager (snd (socketHandler env uuid w sock (Consume t p) s))"
  by (auto simp: on_consume_def consume_def Let_def split: option.splits sum.splits)

theorem consume_depends_on_media_only_witness:
  "transports (mediasoupManager studio) ''t1'' \<noteq> None \<and>
   producers (mediasoupManager studio) ''p0'' \<noteq> None \<and>
   router (mediasoupManager studio) \<noteq> None \<and>
   worker_canConsume worker_ok \<and> worker_accepts worker_ok \<and>
   fst (socketHandler env_unset ''u1'' worker_ok ''s1'' (Consume ''t1'' ''p0'') studio) =
     Consumed ''k1'' ''p0'' \<and>
   producers (mediasoupManager studio) ''p5'' = None \<and>
   socketHandler env_unset ''u1'' worker_ok ''s1'' (Consume ''t1'' ''p5'') studio =
     (Failure (ProducerNotFound ''p5''), studio) \<and>
   transports (mediasoupManager studio) ''t5'' = None \<and>
   socketHandler env_unset ''u1'' worker_ok ''s1'' (Consume ''t5'' ''p0'') studio =
     (Failure (TransportNotFound ''t5''), studio)"
proof -
  have pre: "transports (mediasoupManager studio) ''t1'' \<noteq> None \<and>
             producers (mediasoupManager studio) ''p0'' \<noteq> None \<and>
             router (mediasoupManager studio) \<noteq> None \<and>
             worker_canConsume worker_ok \<and> worker_accepts worker_ok"
    by (simp add: studio_def worker_ok_def)
  have nop: "producers (mediasoupManager studio) ''p5'' = None"
    by (simp add: studio_def)
  have not: "transports (mediasoupManager studio) ''t5'' = None"
    by (simp add: studio_def)
  have ok: "fst (socketHandler env_unset ''u1'' worker_ok ''s1'' (Consume ''t1'' ''p0'') studio) =
              Consumed ''k1'' ''p0''"
    using consume_depends_on_media_only
            [of studio "''t1''" "''p0''" worker_ok env_unset "''u1''" "''s1''"] pre
    by (simp add: worker_ok_def)
  have errp: "socketHandler env_unset ''u1'' worker_ok ''s1'' (Consume ''t1'' ''p5'') studio =
                (Failure (ProducerNotFound ''p5''), studio)"
    using consume_depends_on_media_only
            [of studio "''t1''" "''p5''" worker_ok env_unset "''u1''" "''s1''"] pre nop
    by simp
  have errt: "socketHandler env_unset ''u1'' worker_ok ''s1'' (Consume ''t5'' ''p0'') studio =
                (Failure (TransportNotFound ''t5''), studio)"
    using consume_depends_on_media_only
            [of studio "''t5''" "''p0''" worker_ok env_unset "''u1''" "''s1''"] not
    by simp
  show ?thesis
    using pre nop not ok errp errt by simp
qed

subsection \<open>C2: produce\<close>

lemma addProducerToChannel_lookup:
  "map_of (channels (snd (addProducerToChannel chm C producerId))) D =
     map_option
       (\<lambda>ch. if D = C
              then ch\<lparr>channel_producers := insert producerId (channel_producers ch)\<rparr> else ch)
       (map_of (channels chm) D)"
  by (cases "map_of (channels chm) C"; cases "D = C")
     (simp_all add: addProducerToChannel_def AList.update_conv' option.map_ident)

lemma canSpeak_error: "canSpeak cm c C = Inl e \<Longrightarrow> e = TypeError"
  by (auto simp: canSpeak_def split: option.splits if_splits)

text \<open>
  The registration loop, when no \<open>canSpeak\<close> call throws: a channel of the registry
  gains the producer exactly if it is in the list and \<open>canSpeak\<close> holds for it.
\<close>

lemma register_producer_lookup:
  assumes "\<forall>C \<in> set cs. canSpeak cm c C \<noteq> Inl TypeError"
  shows "fst (register_producer cm c producerId cs chm) = None \<and>
         map_of (channels (snd (register_producer cm c producerId cs chm))) D =
           map_option
             (\<lambda>ch. if D \<in> set cs \<and> canSpeak cm c D = Inr True
                    then ch\<lparr>channel_producers := insert producerId (channel_producers ch)\<rparr>
                    else ch)
             (map_of (channels chm) D)"
  using assms
proof (induction cs arbitrary: chm)
  case Nil
  then show ?case by (simp add: option.map_ident)
next
  case (Cons C cs)
  from Cons.prems obtain b where b: "canSpeak cm c C = Inr b"
    by (cases "canSpeak cm c C") (auto dest: canSpeak_error)
  have rest: "\<forall>C \<in> set cs. canSpeak cm c C \<noteq> Inl TypeError"
    using Cons.prems by simp
  show ?case
  proof (cases b)
    case True
    show ?thesis
      using Cons.IH [OF rest, of "snd (addProducerToChannel chm C producerId)"] b True
      by (cases "map_of (channels chm) D") (auto simp: addProducerToChannel_lookup)
  next
    case False
    show ?thesis
      using Cons.IH [OF rest, of chm] b False
      by (cases "map_of (channels chm) D") auto
  qed
qed

text \<open>
  Claim C2 as stated fails: the producer is created before any permission is looked at.
  In \<open>studio\<close>, \<open>carol\<close> may speak in no channel (her only channel is \<open>main\<close>, and
  \<open>canSpeak\<close> is false there), yet her produce request succeeds and the producer
  exists afterwards; it is registered in no channel.
\<close>

theorem produce_without_speak_counterexample:
  "getClientBySocketId (clientManager studio) ''s7'' =
     Some (carol [''main''] [''main'' \<mapsto> default_settings]) \<and>
   canSpeak (clientManager studio) ''c7'' ''main'' = Inr False \<and>
   fst (socketHandler env_unset ''u1'' worker_ok ''s7'' (Produce ''t7'' ''audio'') studio) =
     Produced ''k1'' \<and>
   producers (mediasoupManager
       (snd (socketHandler env_unset ''u1'' worker_ok ''s7'' (Produce ''t7'' ''audio'') studio)))
     ''k1'' =
     Some \<lparr>producer_id = ''k1'', producer_kind = ''audio'', producer_transportId = ''t7''\<rparr> \<and>
   map_option channel_producers
     (map_of (channels (channelManager
        (snd (socketHandler env_unset ''u1'' worker_ok ''s7'' (Produce ''t7'' ''audio'') studio))))
        ''main'') = Some {''p0''}"
  by (simp add: studio_def bob_def alice_def carol_def worker_ok_def getClientBySocketId_def
        getClientInfo_def canSpeak_def on_produce_def produce_def Let_def)

text \<open>
  Claim C2, amended. For every produce request on a known transport that the library
  accepts, sent over a socket bound to a registered client (and with no \<open>canSpeak\<close>
  call throwing), the producer is created whatever the client's permissions are, and its
  id is added to the producers set of exactly those channels of the registry that are in
  the client's channel list and in which \<open>canSpeak\<close> holds for the client; every other
  channel and the client registry are unchanged.
\<close>

theorem produce_registers_where_canSpeak:
  assumes "transports (mediasoupManager s) t = Some tr" and "worker_accepts w"
    and "getClientBySocketId (clientManager s) sock = Some cl"
    and "\<forall>C \<in> set (client_channels cl).
           canSpeak (clientManager s) (client_id cl) C \<noteq> Inl TypeError"
  shows "fst (socketHandler env uuid w sock (Produce t kind) s) = Produced (worker_id w) \<and>
         producers (mediasoupManager (snd (socketHandler env uuid w sock (Produce t kind) s)))
             (worker_id w) =
           Some \<lparr>producer_id = worker_id w, producer_kind = kind, producer_transportId = t\<rparr> \<and>
         clientManager (snd (socketHandler env uuid w sock (Produce t kind) s)) =
           clientManager s \<and>
         (\<forall>C. map_of (channels (channelManager
                        (snd (socketHandler env uuid w sock (Produce t kind) s)))) C =
               map_option
                 (\<lambda>ch. if C \<in> set (client_channels cl) \<and>
                           canSpeak (clientManager s) (client_id cl) C = Inr True
                        then ch\<lparr>channel_producers :=
                                  insert (worker_id w) (channel_producers ch)\<rparr>
                        else ch)
                 (map_of (channels (channelManager s)) C))"
proof -
  let ?r = "register_producer (clientManager s) (client_id cl) (worker_id w)
              (client_channels cl) (channelManager s)"
  have reg: "fst ?r = None"
    and look: "\<And>C. map_of (channels (snd ?r)) C =
           map_option
             (\<lambda>ch. if C \<in> set (client_channels cl) \<and>
                       canSpeak (clientManager s) (client_id cl) C = Inr True
                    then ch\<lparr>channel_producers := insert (worker_id w) (channel_producers ch)\<rparr>
                    else ch)
             (map_of (channels (channelManager s)) C)"
    using register_producer_lookup [OF assms(4)] by auto
  obtain chm' where r: "?r = (None, chm')"
    using reg by (cases ?r) auto
  have h: "on_produce w sock t kind s =
        (Produced (worker_id w),
         s\<lparr>mediasoupManager :=
             (mediasoupManager s)
               \<lparr>producers :=
                  (producers (mediasoupManager s))
                    (worker_id w \<mapsto> \<lparr>producer_id = worker_id w, producer_kind = kind,
                                      producer_transportId = t\<rparr>)\<rparr>,
           channelManager := chm'\<rparr>)"
    using assms(1-3) r by (simp add: on_produce_def produce_def Let_def)
  show ?thesis
    using look r by (simp add: h)
qed

theorem produce_registers_where_canSpeak_witness:
  "transports (mediasoupManager studio) ''t1'' = Some \<lparr>transport_id = ''t1''\<rparr> \<and>
   worker_accepts worker_ok \<and>
   getClientBySocketId (clientManager studio) ''s1'' = Some bob \<and>
   canSpeak (clientManager studio) (client_id bob) ''main'' = Inr True \<and>
   fst (socketHandler env_unset ''u1'' worker_ok ''s1'' (Produce ''t1'' ''audio'') studio) =
     Produced ''k1'' \<and>
   map_option channel_producers
     (map_of (channels (channelManager
        (snd (socketHandler env_unset ''u1'' worker_ok ''s1'' (Produce ''t1'' ''audio'') studio))))
        ''main'') = Some {''k1'', ''p0''}"
proof -
  have t: "transports (mediasoupManager studio) ''t1'' = Some \<lparr>transport_id = ''t1''\<rparr>"
    by (simp add: studio_def)
  have a: "worker_accepts worker_ok"
    by (simp add: worker_ok_def)
  have g: "getClientBySocketId (clientManager studio) ''s1'' = Some bob"
    by (simp add: studio_def getClientBySocketId_def getClientInfo_def alice_def bob_def)
  have sp: "canSpeak (clientManager studio) (client_id bob) ''main'' = Inr True"
    by (simp add: studio_def canSpeak_def bob_def)
  have nt: "\<forall>C \<in> set (client_channels bob).
              canSpeak (clientManager studio) (client_id bob) C \<noteq> Inl TypeError"
    using sp by (simp add: bob_def)
  have m: "map_of (channels (channelManager studio)) ''main'' =
             Some \<lparr>channel_id = ''main'', channel_name = ''Main'', channel_description = [],
                   channel_clients = {''c0'', ''c1'', ''c7''}, channel_producers = {''p0''}\<rparr>"
    by (simp add: studio_def)
  have c: "''main'' \<in> set (client_channels bob)"
    by (simp add: bob_def)
  note inst = produce_registers_where_canSpeak
               [OF t a g nt, of env_unset "''u1''" "''audio''"]
  have r1: "fst (socketHandler env_unset ''u1'' worker_ok ''s1'' (Produce ''t1'' ''audio'') studio) =
              Produced ''k1''"
    using inst by (simp add: worker_ok_def)
  have r2: "map_option channel_producers
     (map_of (channels (channelManager
        (snd (socketHandler env_unset ''u1'' worker_ok ''s1'' (Produce ''t1'' ''audio'') studio))))
        ''main'') = Some {''k1'', ''p0''}"
    using inst sp c by (simp add: m worker_ok_def)
  show ?thesis
    using t a g sp r1 r2 by simp
qed

subsection \<open>C4: requests of a session that is not active\<close>

text \<open>
  Claim C4 as stated fails: the five media handlers test nothing about the session.
  In \<open>studio\<close>, \<open>dave\<close> (socket \<open>s8\<close>) is still pending; his requests for the router
  capabilities and for a transport are served, and the transport is stored.
\<close>

theorem pending_session_served_counterexample:
  "session_state_of (clientManager studio) ''s8'' = PENDING \<and>
   fst (socketHandler env_unset ''u1'' worker_ok ''s8'' GetRouterRtpCapabilities studio) =
     RtpCapabilities ''opus'' \<and>
   fst (socketHandler env_unset ''u1'' worker_ok ''s8'' CreateWebRtcTransport studio) =
     TransportParams ''k1'' \<and>
   transports (mediasoupManager studio) ''k1'' = None \<and>
   transports (mediasoupManager
       (snd (socketHandler env_unset ''u1'' worker_ok ''s8'' CreateWebRtcTransport studio)))
     ''k1'' = Some \<lparr>transport_id = ''k1''\<rparr>"
  by (simp add: studio_def bob_def alice_def carol_def worker_ok_def session_state_of_def
        getClientBySocketId_def on_getRouterRtpCapabilities_def getRtpCapabilities_def
        on_createWebRtcTransport_def createWebRtcTransport_def Let_def)

text \<open>
  For a socket bound to a registered client the speaking requests do emit:
  \<open>startSpeaking\<close> where \<open>canSpeak\<close> holds (\<open>bob\<close> in \<open>main\<close>, not \<open>carol\<close>),
  \<open>stopSpeaking\<close> always.
\<close>

lemma active_session_speaking_emits:
  "socketEmits env_unset ''u1'' worker_ok ''s1'' (StartSpeaking ''main'') studio =
     [ClientSpeaking ''main'' ''c1'' ''bob''] \<and>
   socketEmits env_unset ''u1'' worker_ok ''s7'' (StartSpeaking ''main'') studio = [] \<and>
   socketEmits env_unset ''u1'' worker_ok ''s7'' (StopSpeaking ''main'') studio =
     [ClientStoppedSpeaking ''main'' ''c7'' ''carol'']"
  by (simp add: startSpeaking_emits_def stopSpeaking_emits_def studio_def bob_def alice_def
        carol_def getClientBySocketId_def getClientInfo_def canSpeak_def)

text \<open>
  Claim C4, amended. For a session that is \<open>NEW\<close> or \<open>PENDING\<close>: the administrative
  requests (\<open>authorizeClient\<close>, \<open>createChannel\<close>) fail with \<open>Unauthorized\<close>, the
  settings requests (\<open>toggleChannelMute\<close>, \<open>adjustChannelVolume\<close>) fail with
  \<open>Client not found\<close>, and \<open>startSpeaking\<close>/\<open>stopSpeaking\<close> are ignored; none of
  them changes the state or emits an event. The media requests are not gated by the
  session: \<open>getRouterRtpCapabilities\<close>, \<open>createWebRtcTransport\<close>,
  \<open>connectWebRtcTransport\<close> and \<open>consume\<close> are answered as for any other socket, and
  \<open>produce\<close> creates the producer whenever the Media Worker does, only without
  registering it in a channel.
\<close>

theorem inactive_session_requests:
  assumes "session_state_of (clientManager s) sock = NEW \<or>
           session_state_of (clientManager s) sock = PENDING"
  shows "socketHandler env uuid w sock (AuthorizeClient c a chans perms) s =
           (Failure Unauthorized, s) \<and>
         socketHandler env uuid w sock (CreateChannel name d) s = (Failure Unauthorized, s) \<and>
         socketHandler env uuid w sock (ToggleChannelMute C m) s = (Failure ClientNotFound, s) \<and>
         socketHandler env uuid w sock (AdjustChannelVolume C v) s =
           (Failure ClientNotFound, s) \<and>
         socketHandler env uuid w sock (StartSpeaking C) s = (NoReply, s) \<and>
         socketHandler env uuid w sock (StopSpeaking C) s = (NoReply, s) \<and>
         socketEmits env uuid w sock (AuthorizeClient c a chans perms) s = [] \<and>
         socketEmits env uuid w sock (CreateChannel name d) s = [] \<and>
         socketEmits env uuid w sock (ToggleChannelMute C m) s = [] \<and>
         socketEmits env uuid w sock (AdjustChannelVolume C v) s = [] \<and>
         socketEmits env uuid w sock (StartSpeaking C) s = [] \<and>
         socketEmits env uuid w sock (StopSpeaking C) s = [] \<and>
         socketHandler env uuid w sock GetRouterRtpCapabilities s =
           socketHandler env uuid w sock' GetRouterRtpCapabilities s \<and>
         socketHandler env uuid w sock CreateWebRtcTransport s =
           socketHandler env uuid w sock' CreateWebRtcTransport s \<and>
         socketHandler env uuid w sock (ConnectWebRtcTransport t) s =
           socketHandler env uuid w sock' (ConnectWebRtcTransport t) s \<and>
         socketHandler env uuid w sock (Consume t p) s =
           socketHandler env uuid w sock' (Consume t p) s \<and>
         socketHandler env uuid w sock (Produce t kind) s =
           (case produce (mediasoupManager s) w t kind of
              Inl e \<Rightarrow> (Failure e, s)
            | Inr (pr, ms') \<Rightarrow> (Produced (producer_id pr), s\<lparr>mediasoupManager := ms'\<rparr>))"
proof -
  have "getClientBySocketId (clientManager s) sock = None"
    using assms by (auto simp: session_state_of_def split: option.splits)
  then show ?thesis
    by (simp add: on_authorizeClient_def on_createChannel_def on_toggleChannelMute_def
          on_adjustChannelVolume_def on_produce_def ClientManager_isAdmin_def
          authorizeClient_emits_def createChannel_emits_def startSpeaking_emits_def
          stopSpeaking_emits_def
          split: sum.splits prod.splits)
qed

theorem inactive_session_requests_witness:
  "session_state_of (clientManager studio) ''s8'' = PENDING \<and>
   socketHandler env_unset ''u1'' worker_ok ''s8''
       (AuthorizeClient ''c8'' True (Some [''main'']) (Some no_permissions)) studio =
     (Failure Unauthorized, studio) \<and>
   socketHandler env_unset ''u1'' worker_ok ''s8'' (CreateChannel ''Cams'' []) studio =
     (Failure Unauthorized, studio) \<and>
   socketHandler env_unset ''u1'' worker_ok ''s8''
       (AdjustChannelVolume ''main'' (Number (1 / 2))) studio =
     (Failure ClientNotFound, studio) \<and>
   socketEmits env_unset ''u1'' worker_ok ''s8'' (StartSpeaking ''main'') studio = [] \<and>
   socketEmits env_unset ''u1'' worker_ok ''s8'' (StopSpeaking ''main'') studio = [] \<and>
   session_state_of (clientManager studio) ''s9'' = NEW \<and>
   socketHandler env_unset ''u1'' worker_ok ''s9'' (ToggleChannelMute ''main'' True) studio =
     (Failure ClientNotFound, studio) \<and>
   socketEmits env_unset ''u1'' worker_ok ''s9'' (StartSpeaking ''main'') studio = []"
proof -
  have p: "session_state_of (clientManager studio) ''s8'' = PENDING"
    by (simp add: studio_def bob_def alice_def carol_def session_state_of_def
          getClientBySocketId_def)
  have n: "session_state_of (clientManager studio) ''s9'' = NEW"
    by (simp add: studio_def bob_def alice_def carol_def session_state_of_def
          getClientBySocketId_def)
  show ?thesis
    using inactive_session_requests [of studio "''s8''", OF disjI2, OF p]
          inactive_session_requests [of studio "''s9''", OF disjI1, OF n]
          p n
    by simp
qed

end
